theory Spec2Isabelle
  imports Complex_Main
begin

section \<open>Numbers, vectors and configuration\<close>

text \<open>
  The program is JavaScript; its numbers are IEEE doubles and the vertex and particle
  buffers are \<^verbatim>\<open>Float32Array\<close>s. Numbers are modelled as \<^typ>\<open>real\<close>: rounding,
  infinities and NaN are outside the model, so every equation below is an equation of
  the formulas the code evaluates.

  Three source files hold a \<^verbatim>\<open>HeartAnimation\<close> class:
  \<^item> \<^verbatim>\<open>src/unnamed/part_000\<close> (second document), the "Optimized Version": variant \<open>v0\<close>;
  \<^item> \<^verbatim>\<open>src/unnamed/part_001\<close>, the "Optimized Version" with the small heart: variant \<open>v1\<close>;
  \<^item> \<^verbatim>\<open>src/assets/js/main.js\<close>, the "Rebuilt Version": suffix \<open>rebuilt\<close>.
\<close>

text \<open>The entries of \<^verbatim>\<open>CONFIG\<close> that the update loop reads (the same in v0 and v1).\<close>

definition BEAT_MAX_VALUE :: real where "BEAT_MAX_VALUE = 0.5"
definition NOISE_SCALE :: real where "NOISE_SCALE = 1.5"
definition NOISE_FREQUENCY :: real where "NOISE_FREQUENCY = 500"
definition NOISE_AMPLITUDE :: real where "NOISE_AMPLITUDE = 0.15"
definition MAX_Z :: real where "MAX_Z = 0.23"
definition RATE_Z :: real where "RATE_Z = 0.5"
definition FRAME_SKIP_THRESHOLD :: real where "FRAME_SKIP_THRESHOLD = 16"

text \<open>\<^verbatim>\<open>const MAX_Z_RATE_Z = CONFIG.MAX_Z * CONFIG.RATE_Z;\<close> and
  \<^verbatim>\<open>const NOISE_SCALE_AMPLITUDE = CONFIG.NOISE_SCALE * CONFIG.NOISE_AMPLITUDE;\<close>\<close>

definition MAX_Z_RATE_Z :: real where "MAX_Z_RATE_Z = MAX_Z * RATE_Z"
definition NOISE_SCALE_AMPLITUDE :: real where
  "NOISE_SCALE_AMPLITUDE = NOISE_SCALE * NOISE_AMPLITUDE"

text \<open>\<^verbatim>\<open>THREE.Vector3\<close> and \<^verbatim>\<open>THREE.Color\<close> (library classes): three numeric fields each.
  The fields are \<^verbatim>\<open>x, y, z\<close> and \<^verbatim>\<open>r, g, b\<close> in the source.\<close>

record Vector3 =
  vx :: real
  vy :: real
  vz :: real

record Color =
  cr :: real
  cg :: real
  cb :: real

text \<open>\<^verbatim>\<open>Vector3.multiplyScalar(s)\<close>: every component is multiplied by \<open>s\<close>.\<close>

definition multiplyScalar :: "Vector3 \<Rightarrow> real \<Rightarrow> Vector3" where
  "multiplyScalar v s = \<lparr>vx = vx v * s, vy = vy v * s, vz = vz v * s\<rparr>"

text \<open>\<^verbatim>\<open>SimplexNoise\<close> (library class, not among the sources): the object is seeded once
  when it is constructed; afterwards \<^verbatim>\<open>noise4D\<close> is a function of its four arguments.
  It is a parameter of the model.\<close>

record SimplexNoise =
  noise4D :: "real \<Rightarrow> real \<Rightarrow> real \<Rightarrow> real \<Rightarrow> real"

section \<open>SparkPoint\<close>

text \<open>
  \<^verbatim>\<open>
  class SparkPoint {
    constructor(sampler, palette, simplex, pos) {
      sampler.sample(pos);
      this.color = palette[Math.floor(Math.random() * palette.length)];
      this.rand = Math.random() * CONFIG.PARTICLE_RANDOM_FACTOR;
      this.pos = pos.clone();
      this.one = null;
      this.two = null;
      this.simplex = simplex;
    }
  \<close>
  \<^verbatim>\<open>null\<close> is \<open>None\<close>.
\<close>

record SparkPoint =
  color :: Color
  rand :: real
  pos :: Vector3
  one :: "Vector3 option"
  two :: "Vector3 option"
  simplex :: SimplexNoise

text \<open>
  \<^verbatim>\<open>update(beat)\<close> of v0 (\<^verbatim>\<open>part_000\<close>); the argument is the shared object
  \<^verbatim>\<open>{ a: ... }\<close>, of which only \<^verbatim>\<open>beat.a\<close> is read, so the model takes that number.
  \<^verbatim>\<open>
    const noise  = this.simplex.noise4D(this.pos.x * 1, this.pos.y * 1, this.pos.z * 1, 0.1) + 1.5;
    const noise2 = this.simplex.noise4D(this.pos.x * CONFIG.NOISE_FREQUENCY,
                     this.pos.y * CONFIG.NOISE_FREQUENCY, this.pos.z * CONFIG.NOISE_FREQUENCY, 1) + 1;
    this.one = this.pos.clone().multiplyScalar(1.01 + noise * NOISE_SCALE_AMPLITUDE * beat.a);
    this.two = this.pos.clone().multiplyScalar(1.01 + noise2 * NOISE_SCALE_AMPLITUDE * beat.a);
  \<close>
\<close>

definition update_v0 :: "real \<Rightarrow> SparkPoint \<Rightarrow> SparkPoint" where
  "update_v0 beat_a s =
     (let noise = noise4D (simplex s) (vx (pos s) * 1) (vy (pos s) * 1) (vz (pos s) * 1) 0.1 + 1.5;
          noise2 = noise4D (simplex s) (vx (pos s) * NOISE_FREQUENCY) (vy (pos s) * NOISE_FREQUENCY)
                     (vz (pos s) * NOISE_FREQUENCY) 1 + 1
      in s\<lparr>one := Some (multiplyScalar (pos s) (1.01 + noise * NOISE_SCALE_AMPLITUDE * beat_a)),
            two := Some (multiplyScalar (pos s) (1.01 + noise2 * NOISE_SCALE_AMPLITUDE * beat_a))\<rparr>)"

text \<open>
  \<^verbatim>\<open>update(beat)\<close> of v1 (\<^verbatim>\<open>part_001\<close>): the same two noise samples and the same
  \<^verbatim>\<open>this.one\<close>, but
  \<^verbatim>\<open>
    this.two = this.pos.clone().multiplyScalar(1 + noise2 * (beat.a + 0.3) - beat.a * 1.2);
  \<close>
\<close>

definition update_v1 :: "real \<Rightarrow> SparkPoint \<Rightarrow> SparkPoint" where
  "update_v1 beat_a s =
     (let noise = noise4D (simplex s) (vx (pos s) * 1) (vy (pos s) * 1) (vz (pos s) * 1) 0.1 + 1.5;
          noise2 = noise4D (simplex s) (vx (pos s) * NOISE_FREQUENCY) (vy (pos s) * NOISE_FREQUENCY)
                     (vz (pos s) * NOISE_FREQUENCY) 1 + 1
      in s\<lparr>one := Some (multiplyScalar (pos s) (1.01 + noise * NOISE_SCALE_AMPLITUDE * beat_a)),
            two := Some (multiplyScalar (pos s) (1 + noise2 * (beat_a + 0.3) - beat_a * 1.2))\<rparr>)"

datatype variant = V0 | V1

fun update :: "variant \<Rightarrow> real \<Rightarrow> SparkPoint \<Rightarrow> SparkPoint" where
  "update V0 beat_a s = update_v0 beat_a s"
| "update V1 beat_a s = update_v1 beat_a s"

text \<open>A noise stub and a spark for concrete evaluation: the noise value is \<open>-1/2\<close> at
  the fourth coordinate \<open>0.1\<close> (first sample) and \<open>4/5\<close> elsewhere (second sample).\<close>

definition stub_noise :: SimplexNoise where
  "stub_noise = \<lparr>noise4D = (\<lambda>x y z w. if w = 0.1 then - 0.5 else 0.8)\<rparr>"

definition spark0 :: SparkPoint where
  "spark0 = \<lparr>color = \<lparr>cr = 1, cg = 0.5, cb = 0.25\<rparr>, rand = 0.005,
             pos = \<lparr>vx = 0.1, vy = 0.2, vz = 0.11\<rparr>, one = None, two = None,
             simplex = stub_noise\<rparr>"

section \<open>Particle Buffer Packer: HeartAnimation.updateParticles\<close>

text \<open>Reading a property of \<^verbatim>\<open>null\<close> throws a \<^verbatim>\<open>TypeError\<close>; a failure of the library's
  draw call is the other exception the render loop can see.\<close>

datatype error = TypeError | RenderError

text \<open>A store into a \<^verbatim>\<open>Float32Array\<close>: the array never grows, a store past its end is
  dropped.\<close>

definition f32_set :: "real list \<Rightarrow> nat \<Rightarrow> real \<Rightarrow> real list" where
  "f32_set arr i v = (if i < length arr then arr[i := v] else arr)"

text \<open>The locals of \<^verbatim>\<open>updateParticles\<close> that change during the pass: the two buffers
  (\<^verbatim>\<open>this.positions\<close>, \<^verbatim>\<open>this.colors\<close>) and the two cursors.\<close>

record packer =
  positions :: "real list"
  colors :: "real list"
  posIdx :: nat
  colorIdx :: nat

text \<open>
  One accepted layer:
  \<^verbatim>\<open>
        positions[posIdx++] = p.x;  positions[posIdx++] = p.y;  positions[posIdx++] = p.z;
        colors[colorIdx++] = color.r;  colors[colorIdx++] = color.g;  colors[colorIdx++] = color.b;
  \<close>
\<close>

definition append_layer :: "Vector3 \<Rightarrow> Color \<Rightarrow> packer \<Rightarrow> packer" where
  "append_layer p c k =
     k\<lparr>positions := f32_set (f32_set (f32_set (positions k) (posIdx k) (vx p))
                         (posIdx k + 1) (vy p)) (posIdx k + 2) (vz p),
       posIdx := posIdx k + 3,
       colors := f32_set (f32_set (f32_set (colors k) (colorIdx k) (cr c))
                         (colorIdx k + 1) (cg c)) (colorIdx k + 2) (cb c),
       colorIdx := colorIdx k + 3\<rparr>"

text \<open>
  The body of the loop over \<^verbatim>\<open>spikes\<close>, the same text in v0 and v1 (only
  \<^verbatim>\<open>spike.update\<close> differs):
  \<^verbatim>\<open>
      const spike = spikes[i];
      spike.update(beat);
      const rand = spike.rand;  const color = spike.color;
      const one = spike.one;    const two = spike.two;
      // First particle layer
      if (MAX_Z_RATE_Z + rand > one.z && one.z > -MAX_Z_RATE_Z - rand) { ... one, color ... }
      // Second particle layer
      if (MAX_Z_RATE_Z + rand * 2 > one.z && one.z > -MAX_Z_RATE_Z - rand * 2) { ... two, color ... }
  \<close>
  Both conditions read \<^verbatim>\<open>one.z\<close>. The result is the updated spark and the packer state.
\<close>

definition examine :: "variant \<Rightarrow> real \<Rightarrow> SparkPoint \<Rightarrow> packer \<Rightarrow> error + (SparkPoint \<times> packer)" where
  "examine v beat_a spike0 k =
     (let spike = update v beat_a spike0; rnd = rand spike; col = color spike
      in case one spike of
           None \<Rightarrow> Inl TypeError
         | Some p1 \<Rightarrow>
             let k1 = (if MAX_Z_RATE_Z + rnd > vz p1 \<and> vz p1 > - MAX_Z_RATE_Z - rnd
                       then append_layer p1 col k else k)
             in if MAX_Z_RATE_Z + rnd * 2 > vz p1 \<and> vz p1 > - MAX_Z_RATE_Z - rnd * 2
                then (case two spike of
                        None \<Rightarrow> Inl TypeError
                      | Some p2 \<Rightarrow> Inr (spike, append_layer p2 col k1))
                else Inr (spike, k1))"

text \<open>\<^verbatim>\<open>for (let i = 0, len = spikes.length; i < len; i++)\<close>: the sparks in order; an
  exception ends the pass.\<close>

fun pack_loop :: "variant \<Rightarrow> real \<Rightarrow> SparkPoint list \<Rightarrow> packer \<Rightarrow> error + (SparkPoint list \<times> packer)" where
  "pack_loop v beat_a [] k = Inr ([], k)"
| "pack_loop v beat_a (spike # rest) k =
     (case examine v beat_a spike k of
        Inl e \<Rightarrow> Inl e
      | Inr (spike', k') \<Rightarrow>
          (case pack_loop v beat_a rest k' of
             Inl e \<Rightarrow> Inl e
           | Inr (rest', k'') \<Rightarrow> Inr (spike' # rest', k'')))"

text \<open>
  What \<^verbatim>\<open>updateParticles\<close> leaves behind: the updated sparks, the buffers with the final
  cursors, and the two attributes given to the renderer,
  \<^verbatim>\<open>
    this.geometry.setAttribute("position", new THREE.BufferAttribute(positions.subarray(0, posIdx), 3));
    this.geometry.setAttribute("color", new THREE.BufferAttribute(colors.subarray(0, colorIdx), 3));
  \<close>
  \<^verbatim>\<open>subarray(0, n)\<close> is the prefix of length \<open>n\<close>, or the whole array when it is shorter.
\<close>

record particles =
  spikes_of :: "SparkPoint list"
  buffers :: packer
  position_attribute :: "real list"
  color_attribute :: "real list"

definition updateParticles :: "variant \<Rightarrow> real \<Rightarrow> SparkPoint list \<Rightarrow> real list \<Rightarrow> real list \<Rightarrow> error + particles" where
  "updateParticles v beat_a spikes pos_buf col_buf =
     (case pack_loop v beat_a spikes \<lparr>positions = pos_buf, colors = col_buf, posIdx = 0, colorIdx = 0\<rparr> of
        Inl e \<Rightarrow> Inl e
      | Inr (spikes', k) \<Rightarrow>
          Inr \<lparr>spikes_of = spikes', buffers = k,
               position_attribute = take (posIdx k) (positions k),
               color_attribute = take (colorIdx k) (colors k)\<rparr>)"

text \<open>The depth-band test of the specification, on a point's own \<open>z\<close>:
  \<open>-D - j < z < D + j\<close> with \<open>D = MAX_Z * RATE_Z\<close>.\<close>

definition in_band :: "real \<Rightarrow> Vector3 \<Rightarrow> bool" where
  "in_band j p \<longleftrightarrow> - (MAX_Z * RATE_Z) - j < vz p \<and> vz p < MAX_Z * RATE_Z + j"

text \<open>Concrete inputs for evaluation.\<close>

definition buf6 :: "real list" where "buf6 = [0, 0, 0, 0, 0, 0]"

definition spark1 :: SparkPoint where
  "spark1 = spark0\<lparr>pos := \<lparr>vx = 0.1, vy = 0.2, vz = 0.05\<rparr>, rand := 0.02\<rparr>"

definition buf12 :: "real list" where "buf12 = buf6 @ buf6"

section \<open>Mesh Displacement Update\<close>

text \<open>
  \<^verbatim>\<open>this.originHeart\<close> is a plain array (\<^verbatim>\<open>Array.from\<close> of the position array taken when
  the model is loaded); an element read past its end is \<^verbatim>\<open>undefined\<close>, here \<open>None\<close>.
  The live buffer \<^verbatim>\<open>vs\<close> (\<^verbatim>\<open>this.heart.geometry.attributes.position.array\<close>) is a
  \<^verbatim>\<open>Float32Array\<close>.
\<close>

definition js_get :: "real list \<Rightarrow> nat \<Rightarrow> real option" where
  "js_get arr i = (if i < length arr then Some (arr ! i) else None)"

text \<open>
  One iteration of the loop over the vertices, for a given scale expression:
  \<^verbatim>\<open>
      const x = originHeart[i];  const y = originHeart[i + 1];  const z = originHeart[i + 2];
      const scale = ...;
      vs[i] = x * scale;  vs[i + 1] = y * scale;  vs[i + 2] = z * scale;
  \<close>
  Arithmetic on \<^verbatim>\<open>undefined\<close> gives NaN, which \<^typ>\<open>real\<close> does not have: the
  iteration is \<open>None\<close> when a coordinate is missing.
\<close>

definition displace_vertex ::
    "(real \<Rightarrow> real \<Rightarrow> real \<Rightarrow> real) \<Rightarrow> real list \<Rightarrow> nat \<Rightarrow> real list \<Rightarrow> real list option" where
  "displace_vertex scale originHeart i vs =
     (case js_get originHeart i of None \<Rightarrow> None | Some x \<Rightarrow>
      case js_get originHeart (i + 1) of None \<Rightarrow> None | Some y \<Rightarrow>
      case js_get originHeart (i + 2) of None \<Rightarrow> None | Some z \<Rightarrow>
        Some (f32_set (f32_set (f32_set vs i (x * scale x y z))
                (i + 1) (y * scale x y z)) (i + 2) (z * scale x y z)))"

text \<open>\<^verbatim>\<open>for (let i = 0, len = vs.length; i < len; i += 3) { ... }\<close>\<close>

function displace_loop ::
    "(real \<Rightarrow> real \<Rightarrow> real \<Rightarrow> real) \<Rightarrow> real list \<Rightarrow> nat \<Rightarrow> nat \<Rightarrow> real list \<Rightarrow> real list option" where
  "displace_loop scale originHeart i len vs =
     (if i < len
      then (case displace_vertex scale originHeart i vs of
              None \<Rightarrow> None
            | Some vs' \<Rightarrow> displace_loop scale originHeart (i + 3) len vs')
      else Some vs)"
  by pat_completeness auto
termination
  by (relation "measure (\<lambda>(scale, originHeart, i, len, vs). len - i)") auto

declare displace_loop.simps [simp del]

text \<open>
  The scale of \<^verbatim>\<open>updateHeartGeometry\<close> (v0 and v1):
  \<^verbatim>\<open>
      const noise = simplex.noise4D(x * CONFIG.NOISE_SCALE, y * CONFIG.NOISE_SCALE,
                                    z * CONFIG.NOISE_SCALE, timeFactor) + 1;
      const scale = noise * NOISE_SCALE_AMPLITUDE * beat;
  \<close>
\<close>

definition heart_scale :: "SimplexNoise \<Rightarrow> real \<Rightarrow> real \<Rightarrow> real \<Rightarrow> real \<Rightarrow> real \<Rightarrow> real" where
  "heart_scale sx timeFactor beat x y z =
     (let noise = noise4D sx (x * NOISE_SCALE) (y * NOISE_SCALE) (z * NOISE_SCALE) timeFactor + 1
      in noise * NOISE_SCALE_AMPLITUDE * beat)"

text \<open>\<^verbatim>\<open>const timeFactor = time * 0.000625;\<close> in v0, \<^verbatim>\<open>time * 0.0005\<close> in v1.\<close>

fun timeFactor :: "variant \<Rightarrow> real \<Rightarrow> real" where
  "timeFactor V0 time = time * 0.000625"
| "timeFactor V1 time = time * 0.0005"

text \<open>\<^verbatim>\<open>updateHeartGeometry(time)\<close>, with \<^verbatim>\<open>this.simplex\<close>, \<^verbatim>\<open>this.beat.a\<close>, \<^verbatim>\<open>this.originHeart\<close>
  and the live buffer as arguments; the result is the live buffer afterwards.\<close>

definition updateHeartGeometry ::
    "variant \<Rightarrow> SimplexNoise \<Rightarrow> real \<Rightarrow> real \<Rightarrow> real list \<Rightarrow> real list \<Rightarrow> real list option" where
  "updateHeartGeometry v sx beat time originHeart vs =
     displace_loop (heart_scale sx (timeFactor v time) beat) originHeart 0 (length vs) vs"

text \<open>
  The same loop in \<^verbatim>\<open>animate()\<close> of the rebuilt \<^verbatim>\<open>main.js\<close>, where \<open>now\<close> is
  \<^verbatim>\<open>performance.now()\<close>:
  \<^verbatim>\<open>
    const time = performance.now() * 0.000625;
    for (let i = 0; i < vs.length; i += 3) {
      const n = this.simplex.noise4D(this.originHeart[i] * 1.5, this.originHeart[i + 1] * 1.5,
                                     this.originHeart[i + 2] * 1.5, time);
      const scale = 1 + (n * (0.15 * this.beat.a));
      vs[i] = this.originHeart[i] * scale; ...
  \<close>
\<close>

definition heart_scale_rebuilt :: "SimplexNoise \<Rightarrow> real \<Rightarrow> real \<Rightarrow> real \<Rightarrow> real \<Rightarrow> real \<Rightarrow> real" where
  "heart_scale_rebuilt sx time beat x y z =
     (let n = noise4D sx (x * 1.5) (y * 1.5) (z * 1.5) time
      in 1 + (n * (0.15 * beat)))"

definition animate_heart_rebuilt ::
    "SimplexNoise \<Rightarrow> real \<Rightarrow> real \<Rightarrow> real list \<Rightarrow> real list \<Rightarrow> real list option" where
  "animate_heart_rebuilt sx beat now originHeart vs =
     displace_loop (heart_scale_rebuilt sx (now * 0.000625) beat) originHeart 0 (length vs) vs"

text \<open>The three coordinates of the vertex that flat index \<open>j\<close> belongs to.\<close>

definition vertex_of :: "real list \<Rightarrow> nat \<Rightarrow> real \<times> real \<times> real" where
  "vertex_of arr j = (arr ! (3 * (j div 3)), arr ! (3 * (j div 3) + 1), arr ! (3 * (j div 3) + 2))"

text \<open>Vertex \<open>k\<close> of a flat position buffer: the components at \<open>3k\<close>, \<open>3k + 1\<close>, \<open>3k + 2\<close>.\<close>

definition vertex :: "real list \<Rightarrow> nat \<Rightarrow> Vector3" where
  "vertex arr k = \<lparr>vx = arr ! (3 * k), vy = arr ! (3 * k + 1), vz = arr ! (3 * k + 2)\<rparr>"

text \<open>A rest mesh of two vertices for evaluation.\<close>

definition mesh2 :: "real list" where
  "mesh2 = [1, 2, 2, 0.5, 0, - 1]"

section \<open>The animation loop\<close>

text \<open>
  The fields of \<^verbatim>\<open>HeartAnimation\<close> (v0 and v1) that the render loop reads or writes:
  \<^item> \<open>beat_a\<close> is \<^verbatim>\<open>this.beat.a\<close>; \<open>timeline\<close> says whether \<^verbatim>\<open>setupAnimation\<close> has created
    the \<^verbatim>\<open>gsap\<close> timeline that animates \<^verbatim>\<open>this.beat\<close>;
  \<^item> \<open>heart\<close> is \<^verbatim>\<open>this.heart\<close>, \<open>None\<close> for \<^verbatim>\<open>null\<close>, otherwise its position array;
  \<^item> \<open>this_positions\<close>, \<open>this_colors\<close>, \<open>this_simplex\<close> are \<^verbatim>\<open>this.positions\<close>, \<^verbatim>\<open>this.colors\<close>,
    \<^verbatim>\<open>this.simplex\<close>; \<open>geometry_position\<close>, \<open>geometry_color\<close> are the two attributes of
    \<^verbatim>\<open>this.geometry\<close>; \<open>needsUpdate\<close> is the flag of the heart's position attribute;
  \<^item> \<open>smallHeart_scale\<close> is \<^verbatim>\<open>this.smallHeart.scale\<close> (v1), \<open>None\<close> while \<^verbatim>\<open>this.smallHeart\<close> is
    \<^verbatim>\<open>null\<close>;
  \<^item> \<open>heart_has_nan\<close> records that a run of \<^verbatim>\<open>updateHeartGeometry\<close> read past the end of
    \<^verbatim>\<open>originHeart\<close> and stored NaN, after which \<open>heart\<close> no longer describes the buffer.
\<close>

record HeartAnimation =
  isAnimating :: bool
  lastRenderTime :: real
  beat_a :: real
  timeline :: bool
  this_simplex :: SimplexNoise
  heart :: "real list option"
  originHeart :: "real list"
  spikes :: "SparkPoint list"
  this_positions :: "real list"
  this_colors :: "real list"
  geometry_position :: "real list"
  geometry_color :: "real list"
  needsUpdate :: bool
  smallHeart_scale :: "real option"
  heart_has_nan :: bool

text \<open>
  \<^verbatim>\<open>
  setupAnimation() {
    if (CONFIG.REDUCED_MOTION) {
      this.beat.a = CONFIG.BEAT_MAX_VALUE * 0.3;
    } else {
      gsap.timeline({ repeat: -1, repeatDelay: CONFIG.BEAT_REPEAT_DELAY })
        .to(this.beat, { a: CONFIG.BEAT_MAX_VALUE, ... }).to(this.beat, { a: 0.0, ... });
    }
  }
  \<close>
  \<^verbatim>\<open>CONFIG.REDUCED_MOTION\<close> is read from the browser (\<^verbatim>\<open>window.matchMedia\<close>): an argument.
\<close>

definition setupAnimation :: "bool \<Rightarrow> HeartAnimation \<Rightarrow> HeartAnimation" where
  "setupAnimation REDUCED_MOTION s =
     (if REDUCED_MOTION then s\<lparr>beat_a := BEAT_MAX_VALUE * 0.3\<rparr> else s\<lparr>timeline := True\<rparr>)"

text \<open>The \<^verbatim>\<open>gsap\<close> library is not among the sources. A timeline, once created, stores
  the eased value for the current time into \<^verbatim>\<open>this.beat.a\<close> before a frame; that value is
  the parameter \<open>osc\<close>. Without a timeline nothing happens.\<close>

definition gsap_tick :: "(real \<Rightarrow> real) \<Rightarrow> real \<Rightarrow> HeartAnimation \<Rightarrow> HeartAnimation" where
  "gsap_tick osc t s = (if timeline s then s\<lparr>beat_a := osc t\<rparr> else s)"

text \<open>What a frame gets from the browser: the timestamp passed to the callback,
  \<^verbatim>\<open>document.hidden\<close>, and whether the library's calls (\<^verbatim>\<open>controls.update\<close>,
  \<^verbatim>\<open>renderer.render\<close>) throw.\<close>

record frame =
  currentTime :: real
  hidden :: bool
  draw_throws :: bool

text \<open>\<^verbatim>\<open>updateSmallHeart\<close> (v1 only):
  \<^verbatim>\<open>
    if (!this.smallHeart) return;
    const beat = this.beat.a;  const pulsation = 1 + beat * 0.4;
    this.smallHeart.scale.setScalar(0.25 * pulsation);
  \<close>\<close>

definition updateSmallHeart :: "HeartAnimation \<Rightarrow> HeartAnimation" where
  "updateSmallHeart s =
     (case smallHeart_scale s of
        None \<Rightarrow> s
      | Some old \<Rightarrow> (let beat = beat_a s; pulsation = 1 + beat * 0.4
                     in s\<lparr>smallHeart_scale := Some (0.25 * pulsation)\<rparr>))"

text \<open>
  \<^verbatim>\<open>
  render(time) {
    if (!this.isAnimating || !this.heart) return;
    if (document.hidden) { return; }
    try {
      this.updateParticles();
      this.updateHeartGeometry(time);
      this.updateSmallHeart();          // v1 only
      this.updateControls();
      this.renderer.render(this.scene, this.camera);
    } catch (error) { console.error("Render loop error:", error); throw error; }
  }
  \<close>
  An exception leaves the state as it was when thrown; the result is then \<open>Inl\<close> of the
  exception and that state. The text animation of v0 moves only the text mesh, which is
  not part of the state.
\<close>

definition render :: "variant \<Rightarrow> frame \<Rightarrow> real \<Rightarrow> HeartAnimation \<Rightarrow> (error \<times> HeartAnimation) + HeartAnimation" where
  "render v fr time s =
     (if \<not> isAnimating s then Inr s
      else case heart s of
        None \<Rightarrow> Inr s
      | Some vs \<Rightarrow>
          if hidden fr then Inr s
          else (case updateParticles v (beat_a s) (spikes s) (this_positions s) (this_colors s) of
                  Inl e \<Rightarrow> Inl (e, s)
                | Inr out \<Rightarrow>
                    let s1 = s\<lparr>spikes := spikes_of out,
                                this_positions := positions (buffers out),
                                this_colors := colors (buffers out),
                                geometry_position := position_attribute out,
                                geometry_color := color_attribute out\<rparr>;
                        s2 = (case updateHeartGeometry v (this_simplex s1) (beat_a s1) time
                                     (originHeart s1) vs of
                                None \<Rightarrow> s1\<lparr>heart_has_nan := True, needsUpdate := True\<rparr>
                              | Some vs' \<Rightarrow> s1\<lparr>heart := Some vs', needsUpdate := True\<rparr>);
                        s3 = (case v of V0 \<Rightarrow> s2 | V1 \<Rightarrow> updateSmallHeart s2)
                    in if draw_throws fr then Inl (RenderError, s3) else Inr s3))"

text \<open>
  \<^verbatim>\<open>
  startAnimation() {
    this.isAnimating = true;
    this.lastRenderTime = performance.now();
    const animate = (currentTime) => {
      if (!this.isAnimating) return;
      const deltaTime = currentTime - this.lastRenderTime;
      if (deltaTime < CONFIG.FRAME_SKIP_THRESHOLD) { requestAnimationFrame(animate); return; }
      try {
        this.render(currentTime);
        this.lastRenderTime = currentTime;
      } catch (error) {
        console.error("Render error:", error);
        this.isAnimating = false;
        Utils.showError(...);
        return;
      }
      requestAnimationFrame(animate);
    };
    requestAnimationFrame(animate);
  }
  \<close>
  The callback returns the new state and whether it asked for another callback.
\<close>

definition startAnimation :: "real \<Rightarrow> HeartAnimation \<Rightarrow> HeartAnimation" where
  "startAnimation now s = s\<lparr>isAnimating := True, lastRenderTime := now\<rparr>"

definition animate :: "variant \<Rightarrow> frame \<Rightarrow> HeartAnimation \<Rightarrow> HeartAnimation \<times> bool" where
  "animate v fr s =
     (if \<not> isAnimating s then (s, False)
      else let deltaTime = currentTime fr - lastRenderTime s
           in if deltaTime < FRAME_SKIP_THRESHOLD then (s, True)
              else (case render v fr (currentTime fr) s of
                      Inr s' \<Rightarrow> (s'\<lparr>lastRenderTime := currentTime fr\<rparr>, True)
                    | Inl (e, s') \<Rightarrow> (s'\<lparr>isAnimating := False\<rparr>, False)))"

text \<open>A run of the loop over the callbacks the browser delivers: before each one the
  timeline (if any) has stored its value; the run ends when a callback does not ask for
  another one. The result lists the state after every callback.\<close>

fun run :: "variant \<Rightarrow> (real \<Rightarrow> real) \<Rightarrow> frame list \<Rightarrow> HeartAnimation \<Rightarrow> HeartAnimation list" where
  "run v osc [] s = []"
| "run v osc (fr # frs) s =
     (case animate v fr (gsap_tick osc (currentTime fr) s) of
        (s', again) \<Rightarrow> s' # (if again then run v osc frs s' else []))"

text \<open>A loaded application state and three callbacks for evaluation.\<close>

definition app0 :: HeartAnimation where
  "app0 = \<lparr>isAnimating = False, lastRenderTime = 0, beat_a = 0, timeline = False,
           this_simplex = stub_noise, heart = Some mesh2, originHeart = mesh2,
           spikes = [spark0, spark1], this_positions = buf12, this_colors = buf12,
           geometry_position = [], geometry_color = [], needsUpdate = False,
           smallHeart_scale = None, heart_has_nan = False\<rparr>"

definition frames3 :: "frame list" where
  "frames3 = [\<lparr>currentTime = 20, hidden = False, draw_throws = False\<rparr>,
              \<lparr>currentTime = 30, hidden = False, draw_throws = False\<rparr>,
              \<lparr>currentTime = 40, hidden = False, draw_throws = False\<rparr>]"

definition ramp :: "real \<Rightarrow> real" where
  "ramp t = t / 1000"




section \<open>Properties of SparkPoint.update\<close>

lemma update_one_same: "one (update_v0 b s) = one (update_v1 b s)"
  by (simp add: update_v0_def update_v1_def Let_def)

text \<open>
  C3. For every spark with origin \<open>p\<close> and every beat value \<open>b\<close>, \<^verbatim>\<open>update\<close> sets the
  first candidate \<^verbatim>\<open>one\<close> to \<open>p * (1.01 + (n1 + 1.5) * K * b)\<close>, componentwise, where
  \<open>n1 = noise4D(p.x, p.y, p.z, 0.1)\<close> and \<open>K\<close> is the product of the configured noise
  scale and noise amplitude; this holds in both variants, and the value is a function of
  \<open>p\<close>, \<open>b\<close> and the noise function only.
\<close>

theorem C3_candidateNear_formula:
  fixes s :: SparkPoint and b :: real
  defines "p \<equiv> pos s"
  defines "n1 \<equiv> noise4D (simplex s) (vx p) (vy p) (vz p) 0.1"
  defines "K \<equiv> NOISE_SCALE * NOISE_AMPLITUDE"
  defines "c \<equiv> 1.01 + (n1 + 1.5) * K * b"
  shows "one (update_v0 b s) = Some \<lparr>vx = vx p * c, vy = vy p * c, vz = vz p * c\<rparr>
       \<and> one (update_v1 b s) = Some \<lparr>vx = vx p * c, vy = vy p * c, vz = vz p * c\<rparr>"
  unfolding p_def n1_def K_def c_def
  by (simp add: update_v0_def update_v1_def Let_def multiplyScalar_def NOISE_SCALE_AMPLITUDE_def)

text \<open>
  C9. The two variants of \<^verbatim>\<open>update\<close> differ on the second candidate \<^verbatim>\<open>two\<close>: v0 computes
  \<open>origin * (1.01 + (n2 + 1) * K * b)\<close> and v1 computes
  \<open>origin * (1 + (n2 + 1) * (b + 0.3) - b * 1.2)\<close>, where \<open>n2\<close> is the second noise
  sample, and there is an input on which the two results differ; the first candidate
  \<^verbatim>\<open>one\<close> is the same in both variants on every input.
\<close>

theorem C9_variants_differ_on_candidateFar:
  fixes n2 :: "SparkPoint \<Rightarrow> real" and K :: real
  defines "n2 \<equiv> (\<lambda>s. noise4D (simplex s) (vx (pos s) * NOISE_FREQUENCY)
                      (vy (pos s) * NOISE_FREQUENCY) (vz (pos s) * NOISE_FREQUENCY) 1)"
  defines "K \<equiv> NOISE_SCALE * NOISE_AMPLITUDE"
  shows "(\<forall>s b. two (update_v0 b s) = Some (multiplyScalar (pos s) (1.01 + (n2 s + 1) * K * b)))
       \<and> (\<forall>s b. two (update_v1 b s) =
                 Some (multiplyScalar (pos s) (1 + (n2 s + 1) * (b + 0.3) - b * 1.2)))
       \<and> (\<exists>s b. two (update_v0 b s) \<noteq> two (update_v1 b s))
       \<and> (\<forall>s b. one (update_v0 b s) = one (update_v1 b s))"
proof -
  have far0: "\<forall>s b. two (update_v0 b s) = Some (multiplyScalar (pos s) (1.01 + (n2 s + 1) * K * b))"
    by (simp add: update_v0_def Let_def n2_def K_def NOISE_SCALE_AMPLITUDE_def)
  have far1: "\<forall>s b. two (update_v1 b s) =
                 Some (multiplyScalar (pos s) (1 + (n2 s + 1) * (b + 0.3) - b * 1.2))"
    by (simp add: update_v1_def Let_def n2_def)
  have "two (update_v0 0.5 spark0) \<noteq> two (update_v1 0.5 spark0)"
    by (simp add: update_v0_def update_v1_def Let_def spark0_def stub_noise_def
        multiplyScalar_def NOISE_SCALE_AMPLITUDE_def NOISE_SCALE_def NOISE_AMPLITUDE_def
        NOISE_FREQUENCY_def)
  then have differ: "\<exists>s b. two (update_v0 b s) \<noteq> two (update_v1 b s)"
    by blast
  have near: "\<forall>s b. one (update_v0 b s) = one (update_v1 b s)"
    by (simp add: update_one_same)
  from far0 far1 differ near show ?thesis by blast
qed

text \<open>
  C10. The candidate positions do not depend on the jitter \<^verbatim>\<open>rand\<close>: two sparks with
  the same origin \<^verbatim>\<open>pos\<close> and the same noise object, updated with the same beat value,
  get the same \<^verbatim>\<open>one\<close> and the same \<^verbatim>\<open>two\<close>, whatever their \<^verbatim>\<open>rand\<close> (and colour) are;
  and \<^verbatim>\<open>update\<close> leaves \<^verbatim>\<open>pos\<close>, \<^verbatim>\<open>color\<close> and \<^verbatim>\<open>rand\<close> as they were. Both variants.
\<close>

theorem C10_positions_independent_of_rand:
  assumes "pos s1 = pos s2" and "simplex s1 = simplex s2"
  shows "one (update v b s1) = one (update v b s2)
       \<and> two (update v b s1) = two (update v b s2)
       \<and> pos (update v b s1) = pos s1
       \<and> color (update v b s1) = color s1
       \<and> rand (update v b s1) = rand s1"
  using assms by (cases v) (simp_all add: update_v0_def update_v1_def Let_def)

theorem C10_witness:
  "pos spark0 = pos (spark0\<lparr>rand := 0.02\<rparr>)
   \<and> simplex spark0 = simplex (spark0\<lparr>rand := 0.02\<rparr>)
   \<and> rand spark0 \<noteq> rand (spark0\<lparr>rand := 0.02\<rparr>)
   \<and> one (update V1 0.5 spark0) = one (update V1 0.5 (spark0\<lparr>rand := 0.02\<rparr>))
   \<and> two (update V1 0.5 spark0) = two (update V1 0.5 (spark0\<lparr>rand := 0.02\<rparr>))
   \<and> two (update V1 0.5 spark0) = Some \<lparr>vx = 0.184, vy = 0.368, vz = 0.2024\<rparr>
   \<and> rand (update V1 0.5 spark0) = 0.005"
proof -
  have h1: "pos spark0 = pos (spark0\<lparr>rand := 0.02\<rparr>)" by simp
  have h2: "simplex spark0 = simplex (spark0\<lparr>rand := 0.02\<rparr>)" by simp
  have far: "two (update V1 0.5 spark0) = Some \<lparr>vx = 0.184, vy = 0.368, vz = 0.2024\<rparr>"
    by (simp add: update_v1_def Let_def spark0_def stub_noise_def multiplyScalar_def
        NOISE_FREQUENCY_def)
  have r: "rand spark0 = 0.005" by (simp add: spark0_def)
  from C10_positions_independent_of_rand [OF h1 h2, of V1 "0.5"] far r
  show ?thesis by simp
qed

section \<open>Properties of the Particle Buffer Packer\<close>

lemma update_sets_both: "\<exists>p1 p2. one (update v b s) = Some p1 \<and> two (update v b s) = Some p2"
  by (cases v) (simp_all add: update_v0_def update_v1_def Let_def)

lemma append_layer_facts:
  "posIdx (append_layer p c k) = posIdx k + 3"
  "colorIdx (append_layer p c k) = colorIdx k + 3"
  "length (positions (append_layer p c k)) = length (positions k)"
  "length (colors (append_layer p c k)) = length (colors k)"
  by (simp_all add: append_layer_def f32_set_def)

lemma examine_step:
  "\<exists>k'. examine v b s k = Inr (update v b s, k')
      \<and> (posIdx k' = posIdx k \<or> posIdx k' = posIdx k + 3 \<or> posIdx k' = posIdx k + 6)
      \<and> colorIdx k' + posIdx k = posIdx k' + colorIdx k
      \<and> length (positions k') = length (positions k)
      \<and> length (colors k') = length (colors k)"
proof -
  obtain p1 p2 where o: "one (update v b s) = Some p1" and t: "two (update v b s) = Some p2"
    using update_sets_both by blast
  show ?thesis
    by (simp add: examine_def Let_def o t append_layer_facts)
qed

lemma pack_loop_inv:
  "\<exists>ss' k'. pack_loop v b ss k = Inr (ss', k')
      \<and> ss' = map (update v b) ss
      \<and> posIdx k \<le> posIdx k' \<and> posIdx k' \<le> posIdx k + 6 * length ss
      \<and> 3 dvd (posIdx k' - posIdx k)
      \<and> colorIdx k' + posIdx k = posIdx k' + colorIdx k
      \<and> length (positions k') = length (positions k)
      \<and> length (colors k') = length (colors k)"
proof (induction ss arbitrary: k)
  case Nil
  show ?case by simp
next
  case (Cons s ss)
  obtain k1 where e: "examine v b s k = Inr (update v b s, k1)"
    and step: "posIdx k1 = posIdx k \<or> posIdx k1 = posIdx k + 3 \<or> posIdx k1 = posIdx k + 6"
    and col1: "colorIdx k1 + posIdx k = posIdx k1 + colorIdx k"
    and len1: "length (positions k1) = length (positions k)" "length (colors k1) = length (colors k)"
    using examine_step [of v b s k] by blast
  obtain ss' k2 where l: "pack_loop v b ss k1 = Inr (ss', k2)"
    and m: "ss' = map (update v b) ss"
    and lo: "posIdx k1 \<le> posIdx k2" and hi: "posIdx k2 \<le> posIdx k1 + 6 * length ss"
    and d: "3 dvd (posIdx k2 - posIdx k1)"
    and col2: "colorIdx k2 + posIdx k1 = posIdx k2 + colorIdx k1"
    and len2: "length (positions k2) = length (positions k1)" "length (colors k2) = length (colors k1)"
    using Cons.IH [of k1] by blast
  have run: "pack_loop v b (s # ss) k = Inr (update v b s # ss', k2)"
    by (simp add: e l)
  from step d lo have d': "3 dvd (posIdx k2 - posIdx k)"
  proof (elim disjE)
    assume "posIdx k1 = posIdx k"
    with d show ?thesis by simp
  next
    assume a: "posIdx k1 = posIdx k + 3"
    with lo have "posIdx k2 - posIdx k = (posIdx k2 - posIdx k1) + 3" by simp
    with d show ?thesis by simp
  next
    assume a: "posIdx k1 = posIdx k + 6"
    with lo have "posIdx k2 - posIdx k = (posIdx k2 - posIdx k1) + 3 * 2" by simp
    with d show ?thesis by (metis dvd_add dvd_triv_left)
  qed
  from step lo have lo': "posIdx k \<le> posIdx k2" by auto
  from step hi have hi': "posIdx k2 \<le> posIdx k + 6 * length (s # ss)" by auto
  from col1 col2 have col': "colorIdx k2 + posIdx k = posIdx k2 + colorIdx k" by linarith
  show ?case
    using run m lo' hi' d' col' len1 len2 by simp
qed

text \<open>
  C1 (the code departs from it). The claim reads: the second candidate \<^verbatim>\<open>two\<close> is appended
  iff its own \<open>z\<close> lies in the band \<open>-D - 2*rand < z < D + 2*rand\<close>. The code tests
  \<^verbatim>\<open>one.z\<close> in the second condition as well. At the spark \<open>spark0\<close>
  (origin \<open>(0.1, 0.2, 0.11)\<close>, \<open>rand = 0.005\<close>, noise samples \<open>-0.5\<close> and \<open>0.8\<close>) with
  beat \<open>0.5\<close>, the first candidate has \<open>z = 0.123475\<close>, inside the doubled band
  (\<open>0.125\<close>) and outside the single one (\<open>0.12\<close>), so only the second candidate is
  appended, although its own \<open>z\<close> (\<open>0.133375\<close> in v0, \<open>0.2024\<close> in v1) is outside the
  doubled band.
\<close>

theorem C1_second_layer_tested_on_first_candidate:
  "examine V0 0.5 spark0 \<lparr>positions = buf6, colors = buf6, posIdx = 0, colorIdx = 0\<rparr>
     = Inr (update V0 0.5 spark0,
            \<lparr>positions = [0.12125, 0.2425, 0.133375, 0, 0, 0],
             colors = [1, 0.5, 0.25, 0, 0, 0], posIdx = 3, colorIdx = 3\<rparr>)
   \<and> one (update V0 0.5 spark0) = Some \<lparr>vx = 0.11225, vy = 0.2245, vz = 0.123475\<rparr>
   \<and> two (update V0 0.5 spark0) = Some \<lparr>vx = 0.12125, vy = 0.2425, vz = 0.133375\<rparr>
   \<and> \<not> in_band (rand spark0 * 2) \<lparr>vx = 0.12125, vy = 0.2425, vz = 0.133375\<rparr>
   \<and> examine V1 0.5 spark0 \<lparr>positions = buf6, colors = buf6, posIdx = 0, colorIdx = 0\<rparr>
     = Inr (update V1 0.5 spark0,
            \<lparr>positions = [0.184, 0.368, 0.2024, 0, 0, 0],
             colors = [1, 0.5, 0.25, 0, 0, 0], posIdx = 3, colorIdx = 3\<rparr>)
   \<and> two (update V1 0.5 spark0) = Some \<lparr>vx = 0.184, vy = 0.368, vz = 0.2024\<rparr>
   \<and> \<not> in_band (rand spark0 * 2) \<lparr>vx = 0.184, vy = 0.368, vz = 0.2024\<rparr>"
proof -
  have o0: "one (update V0 0.5 spark0) = Some \<lparr>vx = 0.11225, vy = 0.2245, vz = 0.123475\<rparr>"
    by (simp add: update_v0_def Let_def spark0_def stub_noise_def multiplyScalar_def
        NOISE_SCALE_AMPLITUDE_def NOISE_SCALE_def NOISE_AMPLITUDE_def)
  have t0: "two (update V0 0.5 spark0) = Some \<lparr>vx = 0.12125, vy = 0.2425, vz = 0.133375\<rparr>"
    by (simp add: update_v0_def Let_def spark0_def stub_noise_def multiplyScalar_def
        NOISE_SCALE_AMPLITUDE_def NOISE_SCALE_def NOISE_AMPLITUDE_def NOISE_FREQUENCY_def)
  have o1: "one (update V1 0.5 spark0) = Some \<lparr>vx = 0.11225, vy = 0.2245, vz = 0.123475\<rparr>"
    by (simp add: update_v1_def Let_def spark0_def stub_noise_def multiplyScalar_def
        NOISE_SCALE_AMPLITUDE_def NOISE_SCALE_def NOISE_AMPLITUDE_def)
  have t1: "two (update V1 0.5 spark0) = Some \<lparr>vx = 0.184, vy = 0.368, vz = 0.2024\<rparr>"
    by (simp add: update_v1_def Let_def spark0_def stub_noise_def multiplyScalar_def
        NOISE_FREQUENCY_def)
  have r: "rand (update v 0.5 spark0) = 0.005" "color (update v 0.5 spark0) = \<lparr>cr = 1, cg = 0.5, cb = 0.25\<rparr>" for v
    by (cases v; simp add: update_v0_def update_v1_def Let_def spark0_def)+
  have r0: "rand spark0 = 0.005" by (simp add: spark0_def)
  have e0: "examine V0 0.5 spark0 \<lparr>positions = buf6, colors = buf6, posIdx = 0, colorIdx = 0\<rparr>
     = Inr (update V0 0.5 spark0,
            \<lparr>positions = [0.12125, 0.2425, 0.133375, 0, 0, 0],
             colors = [1, 0.5, 0.25, 0, 0, 0], posIdx = 3, colorIdx = 3\<rparr>)"
    unfolding examine_def Let_def o0 t0 r
    by (simp add: MAX_Z_RATE_Z_def MAX_Z_def RATE_Z_def append_layer_def f32_set_def buf6_def)
  have e1: "examine V1 0.5 spark0 \<lparr>positions = buf6, colors = buf6, posIdx = 0, colorIdx = 0\<rparr>
     = Inr (update V1 0.5 spark0,
            \<lparr>positions = [0.184, 0.368, 0.2024, 0, 0, 0],
             colors = [1, 0.5, 0.25, 0, 0, 0], posIdx = 3, colorIdx = 3\<rparr>)"
    unfolding examine_def Let_def o1 t1 r
    by (simp add: MAX_Z_RATE_Z_def MAX_Z_def RATE_Z_def append_layer_def f32_set_def buf6_def)
  have b0: "\<not> in_band (rand spark0 * 2) \<lparr>vx = 0.12125, vy = 0.2425, vz = 0.133375\<rparr>"
    by (simp add: in_band_def r0 MAX_Z_def RATE_Z_def)
  have b1: "\<not> in_band (rand spark0 * 2) \<lparr>vx = 0.184, vy = 0.368, vz = 0.2024\<rparr>"
    by (simp add: in_band_def r0 MAX_Z_def RATE_Z_def)
  from e0 o0 t0 b0 e1 t1 b1 show ?thesis by blast
qed

text \<open>What the loop body does on every input: both layers are decided by the first
  candidate's \<open>z\<close>, the first with the band widened by \<open>rand\<close>, the second by \<open>2 * rand\<close>.\<close>

theorem examine_second_layer:
  "\<exists>p1 p2 k1. one (update v b s) = Some p1 \<and> two (update v b s) = Some p2
     \<and> k1 = (if in_band (rand s) p1 then append_layer p1 (color s) k else k)
     \<and> examine v b s k =
         Inr (update v b s, if in_band (rand s * 2) p1 then append_layer p2 (color s) k1 else k1)"
proof -
  obtain p1 p2 where o: "one (update v b s) = Some p1" and t: "two (update v b s) = Some p2"
    using update_sets_both by blast
  have r: "rand (update v b s) = rand s" "color (update v b s) = color s"
    by (cases v; simp add: update_v0_def update_v1_def Let_def)+
  have "examine v b s k =
         Inr (update v b s, if in_band (rand s * 2) p1
              then append_layer p2 (color s) (if in_band (rand s) p1 then append_layer p1 (color s) k else k)
              else (if in_band (rand s) p1 then append_layer p1 (color s) k else k))"
    by (simp add: examine_def Let_def o t r in_band_def MAX_Z_RATE_Z_def)
  with o t show ?thesis by simp
qed

text \<open>
  C4. A pass of \<^verbatim>\<open>updateParticles\<close> over \<open>N\<close> sparks always completes; afterwards the
  position cursor equals the colour cursor, is a multiple of 3 and is at most \<open>2 * 3 * N\<close>;
  the attributes handed to the renderer are the prefixes of the buffers of that length
  (exactly that many floats when the buffers have the capacity \<open>6 * N\<close> they are
  allocated with); and every spark examined moves both cursors by the same amount,
  0, 3 or 6.
\<close>

theorem C4_filled_length:
  "(\<exists>out. updateParticles v b sparks pos_buf col_buf = Inr out
       \<and> posIdx (buffers out) = colorIdx (buffers out)
       \<and> 3 dvd posIdx (buffers out)
       \<and> posIdx (buffers out) \<le> 2 * 3 * length sparks
       \<and> position_attribute out = take (posIdx (buffers out)) (positions (buffers out))
       \<and> color_attribute out = take (colorIdx (buffers out)) (colors (buffers out))
       \<and> length (position_attribute out) = min (posIdx (buffers out)) (length pos_buf)
       \<and> length (color_attribute out) = min (colorIdx (buffers out)) (length col_buf)
       \<and> (2 * 3 * length sparks \<le> length pos_buf \<and> 2 * 3 * length sparks \<le> length col_buf
            \<longrightarrow> length (position_attribute out) = posIdx (buffers out)
              \<and> length (color_attribute out) = colorIdx (buffers out)))
   \<and> (\<forall>s k. \<exists>k'. examine v b s k = Inr (update v b s, k')
          \<and> (posIdx k' = posIdx k \<or> posIdx k' = posIdx k + 3 \<or> posIdx k' = posIdx k + 6)
          \<and> colorIdx k' + posIdx k = posIdx k' + colorIdx k)"
proof -
  let ?k0 = "\<lparr>positions = pos_buf, colors = col_buf, posIdx = 0, colorIdx = 0\<rparr>"
  obtain ss' k' where l: "pack_loop v b sparks ?k0 = Inr (ss', k')"
    and hi: "posIdx k' \<le> posIdx ?k0 + 6 * length sparks"
    and d: "3 dvd (posIdx k' - posIdx ?k0)"
    and c: "colorIdx k' + posIdx ?k0 = posIdx k' + colorIdx ?k0"
    and len: "length (positions k') = length (positions ?k0)" "length (colors k') = length (colors ?k0)"
    using pack_loop_inv [of v b sparks ?k0] by blast
  let ?out = "\<lparr>spikes_of = ss', buffers = k',
               position_attribute = take (posIdx k') (positions k'),
               color_attribute = take (colorIdx k') (colors k')\<rparr>"
  have u: "updateParticles v b sparks pos_buf col_buf = Inr ?out"
    by (simp add: updateParticles_def l)
  have eq: "posIdx k' = colorIdx k'" using c by simp
  have d3: "3 dvd posIdx k'" using d by simp
  have le: "posIdx k' \<le> 2 * 3 * length sparks" using hi by simp
  have first: "\<exists>out. updateParticles v b sparks pos_buf col_buf = Inr out
       \<and> posIdx (buffers out) = colorIdx (buffers out)
       \<and> 3 dvd posIdx (buffers out)
       \<and> posIdx (buffers out) \<le> 2 * 3 * length sparks
       \<and> position_attribute out = take (posIdx (buffers out)) (positions (buffers out))
       \<and> color_attribute out = take (colorIdx (buffers out)) (colors (buffers out))
       \<and> length (position_attribute out) = min (posIdx (buffers out)) (length pos_buf)
       \<and> length (color_attribute out) = min (colorIdx (buffers out)) (length col_buf)
       \<and> (2 * 3 * length sparks \<le> length pos_buf \<and> 2 * 3 * length sparks \<le> length col_buf
            \<longrightarrow> length (position_attribute out) = posIdx (buffers out)
              \<and> length (color_attribute out) = colorIdx (buffers out))"
    apply (rule exI [of _ ?out])
    using u eq d3 le len by (simp add: min_def)
  have second: "\<forall>s k. \<exists>k'. examine v b s k = Inr (update v b s, k')
          \<and> (posIdx k' = posIdx k \<or> posIdx k' = posIdx k + 3 \<or> posIdx k' = posIdx k + 6)
          \<and> colorIdx k' + posIdx k = posIdx k' + colorIdx k"
    using examine_step by blast
  from first second show ?thesis by blast
qed

text \<open>Two sparks and buffers of capacity 12: one layer for the first spark, two for the
  second, 9 floats in each attribute.\<close>

theorem C4_witness:
  "2 * 3 * length [spark0, spark1] \<le> length buf12
   \<and> (\<exists>out. updateParticles V0 0.5 [spark0, spark1] buf12 buf12 = Inr out
         \<and> posIdx (buffers out) = 9 \<and> colorIdx (buffers out) = 9
         \<and> length (position_attribute out) = 9 \<and> length (color_attribute out) = 9)"
proof -
  have cap: "2 * 3 * length [spark0, spark1] \<le> length buf12"
    by (simp add: buf12_def buf6_def)
  have ev: "\<exists>out. updateParticles V0 0.5 [spark0, spark1] buf12 buf12 = Inr out
         \<and> posIdx (buffers out) = 9"
    by (simp add: updateParticles_def examine_def update_v0_def Let_def spark0_def spark1_def
        stub_noise_def multiplyScalar_def NOISE_SCALE_AMPLITUDE_def NOISE_SCALE_def
        NOISE_AMPLITUDE_def NOISE_FREQUENCY_def MAX_Z_RATE_Z_def MAX_Z_def RATE_Z_def
        append_layer_def f32_set_def buf12_def buf6_def)
  with cap C4_filled_length [of V0 "0.5" "[spark0, spark1]" buf12 buf12]
  show ?thesis by auto
qed

section \<open>Properties of the Mesh Displacement Update\<close>

lemma displace_vertex_Some:
  assumes "i + 2 < length og"
  shows "displace_vertex sc og i vs =
     Some (f32_set (f32_set (f32_set vs i (og ! i * sc (og ! i) (og ! (i + 1)) (og ! (i + 2))))
       (i + 1) (og ! (i + 1) * sc (og ! i) (og ! (i + 1)) (og ! (i + 2))))
       (i + 2) (og ! (i + 2) * sc (og ! i) (og ! (i + 1)) (og ! (i + 2))))"
  using assms by (simp add: displace_vertex_def js_get_def)

lemma displace_vertex_None:
  assumes "\<not> i + 2 < length og"
  shows "displace_vertex sc og i vs = None"
  using assms by (simp add: displace_vertex_def js_get_def)

lemma length_f32_set: "length (f32_set a i v) = length a"
  by (simp add: f32_set_def)

lemma nth_f32_set: "f32_set a i v ! j = (if j = i \<and> i < length a then v else a ! j)"
  by (simp add: f32_set_def)

lemma displace_loop_closed:
  assumes "3 dvd i" and "3 dvd length vs" and "len = length vs" and "length vs \<le> length og"
  shows "\<exists>vs'. displace_loop sc og i len vs = Some vs' \<and> length vs' = length vs
           \<and> (\<forall>j<length vs. vs' ! j =
                 (if j < i then vs ! j
                  else og ! j * (case vertex_of og j of (x, y, z) \<Rightarrow> sc x y z)))"
  using assms
proof (induction sc og i len vs rule: displace_loop.induct)
  case (1 sc og i len vs)
  show ?case
  proof (cases "i < len")
    case False
    then show ?thesis using "1.prems" by (subst displace_loop.simps) simp
  next
    case True
    from True "1.prems" have in3: "i + 3 \<le> length vs" by presburger
    with "1.prems" have inog: "i + 2 < length og" by simp
    let ?c = "sc (og ! i) (og ! (i + 1)) (og ! (i + 2))"
    let ?vs1 = "f32_set (f32_set (f32_set vs i (og ! i * ?c)) (i + 1) (og ! (i + 1) * ?c))
                  (i + 2) (og ! (i + 2) * ?c)"
    have dv: "displace_vertex sc og i vs = Some ?vs1"
      by (rule displace_vertex_Some [OF inog])
    have l1: "length ?vs1 = length vs" by (simp add: length_f32_set)
    from "1.prems" have d3: "3 dvd i + 3" by simp
    have p2: "3 dvd length ?vs1" using "1.prems"(2) by (simp only: l1)
    have p3: "len = length ?vs1" using "1.prems"(3) by (simp only: l1)
    have p4: "length ?vs1 \<le> length og" using "1.prems"(4) by (simp only: l1)
    from "1.IH" [OF True dv d3 p2 p3 p4]
    obtain vs' where r: "displace_loop sc og (i + 3) len ?vs1 = Some vs'"
      and l0: "length vs' = length ?vs1"
      and v0: "\<forall>j<length ?vs1. vs' ! j =
                 (if j < i + 3 then ?vs1 ! j
                  else og ! j * (case vertex_of og j of (x, y, z) \<Rightarrow> sc x y z))"
      by blast
    from l0 have l: "length vs' = length vs" by (simp only: l1)
    from v0 have v: "\<forall>j<length vs. vs' ! j =
                 (if j < i + 3 then ?vs1 ! j
                  else og ! j * (case vertex_of og j of (x, y, z) \<Rightarrow> sc x y z))"
      by (simp only: l1)
    have run: "displace_loop sc og i len vs = Some vs'"
      using True dv r by (subst displace_loop.simps) simp
    have "vs' ! j = (if j < i then vs ! j
                  else og ! j * (case vertex_of og j of (x, y, z) \<Rightarrow> sc x y z))"
      if j: "j < length vs" for j
    proof -
      consider "j < i" | "i \<le> j" "j < i + 3" | "i + 3 \<le> j" by linarith
      then show ?thesis
      proof cases
        case 1
        with v j in3 show ?thesis by (simp add: nth_f32_set length_f32_set)
      next
        case 2
        from "1.prems"(1) 2 have jd: "3 * (j div 3) = i" by presburger
        from 2 have "j = i \<or> j = i + 1 \<or> j = i + 2" by linarith
        moreover from v j 2 have "vs' ! j = ?vs1 ! j" by simp
        ultimately show ?thesis using in3 2 jd
          by (auto simp: nth_f32_set length_f32_set vertex_of_def)
      next
        case 3
        with v j show ?thesis by simp
      qed
    qed
    with run l show ?thesis by blast
  qed
qed

lemma displace_loop_rel:
  assumes "length ws = length vs" and "len = length vs"
  shows "(displace_loop sc og i len vs = None \<and> displace_loop sc og i len ws = None)
       \<or> (\<exists>a b. displace_loop sc og i len vs = Some a \<and> displace_loop sc og i len ws = Some b
              \<and> length a = length vs \<and> length b = length vs
              \<and> (\<forall>j<length vs. a ! j = (if j < i then vs ! j else b ! j))
              \<and> (\<forall>j<length vs. j < i \<longrightarrow> b ! j = ws ! j))"
  using assms
proof (induction sc og i len vs arbitrary: ws rule: displace_loop.induct)
  case (1 sc og i len vs)
  show ?case
  proof (cases "i < len")
    case False
    have "displace_loop sc og i len vs = Some vs" "displace_loop sc og i len ws = Some ws"
      using False by (subst displace_loop.simps, simp)+
    with False "1.prems" show ?thesis by simp
  next
    case True
    show ?thesis
    proof (cases "i + 2 < length og")
      case False
      have "displace_loop sc og i len vs = None" "displace_loop sc og i len ws = None"
        using True displace_vertex_None [OF False] by (subst displace_loop.simps, simp)+
      then show ?thesis by simp
    next
      case inog: True
      let ?c = "sc (og ! i) (og ! (i + 1)) (og ! (i + 2))"
      let ?f = "\<lambda>u. f32_set (f32_set (f32_set u i (og ! i * ?c)) (i + 1) (og ! (i + 1) * ?c))
                  (i + 2) (og ! (i + 2) * ?c)"
      have dv: "displace_vertex sc og i vs = Some (?f vs)"
        by (rule displace_vertex_Some [OF inog])
      have dw: "displace_vertex sc og i ws = Some (?f ws)"
        by (rule displace_vertex_Some [OF inog])
      have lv: "length (?f vs) = length vs" and lw: "length (?f ws) = length vs"
        using "1.prems" by (simp_all add: length_f32_set)
      have p1: "length (?f ws) = length (?f vs)" by (simp only: lv lw)
      have p2: "len = length (?f vs)" using "1.prems"(2) by (simp only: lv)
      have sv: "displace_loop sc og i len vs = displace_loop sc og (i + 3) len (?f vs)"
        using True dv by (subst displace_loop.simps) simp
      have sw: "displace_loop sc og i len ws = displace_loop sc og (i + 3) len (?f ws)"
        using True dw by (subst displace_loop.simps) simp
      define vs1 where "vs1 = ?f vs"
      define ws1 where "ws1 = ?f ws"
      note IH = "1.IH" [OF True dv p1 p2, folded vs1_def ws1_def]
      have lv1: "length vs1 = length vs" unfolding vs1_def by (rule lv)
      from IH consider
        (none) "displace_loop sc og (i + 3) len vs1 = None"
               "displace_loop sc og (i + 3) len ws1 = None"
      | (some) a b where "displace_loop sc og (i + 3) len vs1 = Some a"
               "displace_loop sc og (i + 3) len ws1 = Some b"
               "length a = length vs1" "length b = length vs1"
               "\<forall>j<length vs1. a ! j = (if j < i + 3 then vs1 ! j else b ! j)"
               "\<forall>j<length vs1. j < i + 3 \<longrightarrow> b ! j = ws1 ! j"
        by (elim disjE conjE exE) auto
      then show ?thesis
      proof cases
        case none
        with sv sw show ?thesis by (simp add: vs1_def ws1_def)
      next
        case some
        from some(3,4) have la: "length a = length vs" and lb: "length b = length vs"
          by (simp_all only: lv1)
        from some(5) [unfolded lv1] have va: "\<forall>j<length vs. a ! j = (if j < i + 3 then ?f vs ! j else b ! j)"
          by (simp only: vs1_def)
        from some(6) [unfolded lv1] have vb: "\<forall>j<length vs. j < i + 3 \<longrightarrow> b ! j = ?f ws ! j"
          by (simp only: ws1_def)
        have A: "a ! j = (if j < i then vs ! j else b ! j)" if j: "j < length vs" for j
        proof -
          consider "j < i" | "i \<le> j" "j < i + 3" | "i + 3 \<le> j" by linarith
          then show ?thesis
          proof cases
            case 1
            with va j show ?thesis by (simp add: nth_f32_set)
          next
            case 2
            then have c: "j = i \<or> j = i + 1 \<or> j = i + 2" by linarith
            from va vb j 2 have e: "a ! j = ?f vs ! j" "b ! j = ?f ws ! j" by simp_all
            from c j "1.prems"(1) have "?f vs ! j = ?f ws ! j"
              by (auto simp: nth_f32_set length_f32_set)
            with e 2 show ?thesis by simp
          next
            case 3
            with va j show ?thesis by simp
          qed
        qed
        have B: "b ! j = ws ! j" if j: "j < length vs" and ji: "j < i" for j
          using vb j ji by (simp add: nth_f32_set)
        from some(1,2) sv sw have "displace_loop sc og i len vs = Some a"
          "displace_loop sc og i len ws = Some b" by (simp_all add: vs1_def ws1_def)
        with la lb A B show ?thesis by auto
      qed
    qed
  qed
qed

lemma displace_loop_idem:
  assumes "displace_loop sc og 0 (length vs) vs = Some a"
  shows "displace_loop sc og 0 (length a) a = Some a"
proof -
  from displace_loop_rel [of vs vs "length vs" sc og 0] assms
  have la: "length a = length vs" by auto
  from displace_loop_rel [of a vs "length vs" sc og 0] la assms
  obtain b where b: "displace_loop sc og 0 (length vs) a = Some b"
    and lb: "length b = length vs" and ab: "\<forall>j<length vs. a ! j = b ! j"
    by auto
  from la lb ab have "a = b" by (simp add: nth_equalityI)
  with b la show ?thesis by simp
qed

lemma displace_loop_reads_only_origin:
  assumes "length ws = length vs"
  shows "displace_loop sc og 0 (length ws) ws = displace_loop sc og 0 (length vs) vs"
proof -
  from displace_loop_rel [of ws vs "length vs" sc og 0] assms
  consider "displace_loop sc og 0 (length vs) vs = None" "displace_loop sc og 0 (length vs) ws = None"
    | a b where "displace_loop sc og 0 (length vs) vs = Some a"
        "displace_loop sc og 0 (length vs) ws = Some b"
        "length a = length vs" "length b = length vs" "\<forall>j<length vs. a ! j = b ! j"
    by auto
  then show ?thesis
  proof cases
    case 1
    with assms show ?thesis by simp
  next
    case 2
    then have "a = b" by (simp add: nth_equalityI)
    with 2 assms show ?thesis by simp
  qed
qed

lemma displace_loop_vertices:
  assumes "3 dvd length vs" and "length vs \<le> length og"
  shows "\<exists>vs'. displace_loop sc og 0 (length vs) vs = Some vs' \<and> length vs' = length vs
           \<and> (\<forall>k. 3 * k + 2 < length vs \<longrightarrow>
                 vertex vs' k = multiplyScalar (vertex og k)
                                  (sc (og ! (3 * k)) (og ! (3 * k + 1)) (og ! (3 * k + 2))))"
proof -
  from displace_loop_closed [of 0 vs "length vs" og sc] assms
  obtain vs' where r: "displace_loop sc og 0 (length vs) vs = Some vs'"
    and l: "length vs' = length vs"
    and v: "\<forall>j<length vs. vs' ! j = og ! j * (case vertex_of og j of (x, y, z) \<Rightarrow> sc x y z)"
    by auto
  have "vertex vs' k = multiplyScalar (vertex og k)
                                  (sc (og ! (3 * k)) (og ! (3 * k + 1)) (og ! (3 * k + 2)))"
    if k: "3 * k + 2 < length vs" for k
  proof -
    have d: "(3 * k) div 3 = k" "(3 * k + 1) div 3 = k" "(3 * k + 2) div 3 = k" by simp_all
    from k have "3 * k < length vs" "3 * k + 1 < length vs" by simp_all
    with v k d show ?thesis
      by (simp add: vertex_def multiplyScalar_def vertex_of_def)
  qed
  with r l show ?thesis by blast
qed

text \<open>
  C2 as stated fails on the loop of the rebuilt \<^verbatim>\<open>main.js\<close>: for the rest mesh
  \<open>[1, 2, 2, 0.5, 0, -1]\<close>, beat \<open>0.5\<close> and a noise value \<open>0.8\<close>, the first live vertex is
  \<open>1.06\<close> times the rest vertex (\<open>1 + 0.8 * 0.15 * 0.5\<close>), not
  \<open>(0.8 + 1) * S * A * 0.5 = 0.2025\<close> times.
\<close>

theorem C2_counterexample:
  "animate_heart_rebuilt stub_noise 0.5 1000 mesh2 mesh2
     = Some [1.06, 2.12, 2.12, 0.53, 0, - 1.06]
   \<and> vertex mesh2 0 = \<lparr>vx = 1, vy = 2, vz = 2\<rparr>
   \<and> vertex [1.06, 2.12, 2.12, 0.53, 0, - 1.06] 0
       \<noteq> multiplyScalar (vertex mesh2 0)
           ((noise4D stub_noise (1 * NOISE_SCALE) (2 * NOISE_SCALE) (2 * NOISE_SCALE)
               (1000 * 0.000625) + 1) * NOISE_SCALE * NOISE_AMPLITUDE * 0.5)"
proof -
  have "animate_heart_rebuilt stub_noise 0.5 1000 mesh2 mesh2
     = Some [1.06, 2.12, 2.12, 0.53, 0, - 1.06]"
    by (simp add: animate_heart_rebuilt_def displace_loop.simps displace_vertex_def js_get_def
        f32_set_def heart_scale_rebuilt_def stub_noise_def mesh2_def Let_def)
  moreover have "vertex mesh2 0 = \<lparr>vx = 1, vy = 2, vz = 2\<rparr>"
    by (simp add: vertex_def mesh2_def)
  moreover have "vertex [1.06, 2.12, 2.12, 0.53, 0, - 1.06] 0
       \<noteq> multiplyScalar (vertex mesh2 0)
           ((noise4D stub_noise (1 * NOISE_SCALE) (2 * NOISE_SCALE) (2 * NOISE_SCALE)
               (1000 * 0.000625) + 1) * NOISE_SCALE * NOISE_AMPLITUDE * 0.5)"
    by (simp add: vertex_def mesh2_def multiplyScalar_def stub_noise_def NOISE_SCALE_def
        NOISE_AMPLITUDE_def)
  ultimately show ?thesis by blast
qed

text \<open>
  C2, amended. For a position buffer of whole vertices and a rest copy of the same length:
  \<^verbatim>\<open>updateHeartGeometry\<close> (v0 and v1) sets every live vertex to the rest vertex times
  \<open>scale = (noise4D(x*S, y*S, z*S, timeFactor) + 1) * S * A * beat\<close>, with \<open>(x, y, z)\<close> the
  rest vertex, \<open>S\<close> the noise scale and \<open>A\<close> the noise amplitude, and no additive
  constant; the loop in \<^verbatim>\<open>animate\<close> of the rebuilt \<^verbatim>\<open>main.js\<close> sets it to the rest vertex
  times \<open>scale = 1 + noise4D(x*1.5, y*1.5, z*1.5, time) * 0.15 * beat\<close>, which has the
  additive constant 1.
\<close>

theorem C2_mesh_scale:
  assumes "3 dvd length vs" and "length rest = length vs"
  shows "(\<exists>vs'. updateHeartGeometry v sx beat time rest vs = Some vs'
            \<and> (\<forall>k. 3 * k + 2 < length vs \<longrightarrow>
                 (let x = rest ! (3 * k); y = rest ! (3 * k + 1);
                      z = rest ! (3 * k + 2);
                      scale = (noise4D sx (x * NOISE_SCALE) (y * NOISE_SCALE) (z * NOISE_SCALE)
                                 (timeFactor v time) + 1) * NOISE_SCALE * NOISE_AMPLITUDE * beat
                  in vertex vs' k = multiplyScalar (vertex rest k) scale)))
       \<and> (\<exists>vs'. animate_heart_rebuilt sx beat now rest vs = Some vs'
            \<and> (\<forall>k. 3 * k + 2 < length vs \<longrightarrow>
                 (let x = rest ! (3 * k); y = rest ! (3 * k + 1);
                      z = rest ! (3 * k + 2);
                      scale = 1 + noise4D sx (x * 1.5) (y * 1.5) (z * 1.5) (now * 0.000625)
                                  * 0.15 * beat
                  in vertex vs' k = multiplyScalar (vertex rest k) scale)))"
proof -
  from assms have le: "length vs \<le> length rest" by simp
  from displace_loop_vertices [OF assms(1) le, of "heart_scale sx (timeFactor v time) beat"]
  have a: "\<exists>vs'. updateHeartGeometry v sx beat time rest vs = Some vs'
            \<and> (\<forall>k. 3 * k + 2 < length vs \<longrightarrow>
                 (let x = rest ! (3 * k); y = rest ! (3 * k + 1);
                      z = rest ! (3 * k + 2);
                      scale = (noise4D sx (x * NOISE_SCALE) (y * NOISE_SCALE) (z * NOISE_SCALE)
                                 (timeFactor v time) + 1) * NOISE_SCALE * NOISE_AMPLITUDE * beat
                  in vertex vs' k = multiplyScalar (vertex rest k) scale))"
    by (auto simp: updateHeartGeometry_def heart_scale_def Let_def NOISE_SCALE_AMPLITUDE_def
        mult.assoc)
  from displace_loop_vertices [OF assms(1) le, of "heart_scale_rebuilt sx (now * 0.000625) beat"]
  have b: "\<exists>vs'. animate_heart_rebuilt sx beat now rest vs = Some vs'
            \<and> (\<forall>k. 3 * k + 2 < length vs \<longrightarrow>
                 (let x = rest ! (3 * k); y = rest ! (3 * k + 1);
                      z = rest ! (3 * k + 2);
                      scale = 1 + noise4D sx (x * 1.5) (y * 1.5) (z * 1.5) (now * 0.000625)
                                  * 0.15 * beat
                  in vertex vs' k = multiplyScalar (vertex rest k) scale))"
    by (auto simp: animate_heart_rebuilt_def heart_scale_rebuilt_def Let_def mult.assoc)
  from a b show ?thesis by blast
qed

lemma length_mesh2: "length mesh2 = 6"
  by (simp add: mesh2_def)

lemma updateHeartGeometry_mesh2:
  "updateHeartGeometry V0 stub_noise 0.5 1000 mesh2 mesh2
     = Some [0.2025, 0.405, 0.405, 0.10125, 0, - 0.2025]"
  by (simp add: updateHeartGeometry_def displace_loop.simps displace_vertex_def js_get_def
      f32_set_def heart_scale_def stub_noise_def mesh2_def Let_def NOISE_SCALE_AMPLITUDE_def
      NOISE_SCALE_def NOISE_AMPLITUDE_def)

text \<open>The second vertex of the two-vertex mesh under \<^verbatim>\<open>updateHeartGeometry\<close> of v0.\<close>

theorem C2_witness:
  "3 dvd length mesh2 \<and> 3 * 1 + 2 < length mesh2
   \<and> updateHeartGeometry V0 stub_noise 0.5 1000 mesh2 mesh2
       = Some [0.2025, 0.405, 0.405, 0.10125, 0, - 0.2025]
   \<and> vertex [0.2025, 0.405, 0.405, 0.10125, 0, - 0.2025] 1
       = multiplyScalar (vertex mesh2 1)
           ((noise4D stub_noise (0.5 * NOISE_SCALE) (0 * NOISE_SCALE) (- 1 * NOISE_SCALE)
               (1000 * 0.000625) + 1) * NOISE_SCALE * NOISE_AMPLITUDE * 0.5)"
proof -
  have h1: "3 dvd length mesh2" by (simp add: length_mesh2)
  have h2: "length mesh2 = length mesh2" by simp
  have h3: "3 * 1 + 2 < length mesh2" by (simp add: length_mesh2)
  have og: "mesh2 ! (3 * 1) = 0.5" "mesh2 ! (3 * 1 + 1) = 0" "mesh2 ! (3 * 1 + 2) = - 1"
    by (simp_all add: mesh2_def)
  from C2_mesh_scale [OF h1 h2, of V0 stub_noise "0.5" 1000 0]
  obtain vs' where r: "updateHeartGeometry V0 stub_noise 0.5 1000 mesh2 mesh2 = Some vs'"
    and f: "\<forall>k. 3 * k + 2 < length mesh2 \<longrightarrow>
                 (let x = mesh2 ! (3 * k); y = mesh2 ! (3 * k + 1); z = mesh2 ! (3 * k + 2);
                      scale = (noise4D stub_noise (x * NOISE_SCALE) (y * NOISE_SCALE)
                                 (z * NOISE_SCALE) (timeFactor V0 1000) + 1)
                              * NOISE_SCALE * NOISE_AMPLITUDE * 0.5
                  in vertex vs' k = multiplyScalar (vertex mesh2 k) scale)"
    by blast
  from r updateHeartGeometry_mesh2
  have e: "vs' = [0.2025, 0.405, 0.405, 0.10125, 0, - 0.2025]" by simp
  from f h3 have "let x = mesh2 ! (3 * 1); y = mesh2 ! (3 * 1 + 1); z = mesh2 ! (3 * 1 + 2);
                      scale = (noise4D stub_noise (x * NOISE_SCALE) (y * NOISE_SCALE)
                                 (z * NOISE_SCALE) (timeFactor V0 1000) + 1)
                              * NOISE_SCALE * NOISE_AMPLITUDE * 0.5
                  in vertex vs' 1 = multiplyScalar (vertex mesh2 1) scale"
    by blast
  then have "vertex [0.2025, 0.405, 0.405, 0.10125, 0, - 0.2025] 1
       = multiplyScalar (vertex mesh2 1)
           ((noise4D stub_noise (mesh2 ! (3 * 1) * NOISE_SCALE) (mesh2 ! (3 * 1 + 1) * NOISE_SCALE)
               (mesh2 ! (3 * 1 + 2) * NOISE_SCALE) (timeFactor V0 1000) + 1)
             * NOISE_SCALE * NOISE_AMPLITUDE * 0.5)"
    by (simp only: Let_def e)
  then have "vertex [0.2025, 0.405, 0.405, 0.10125, 0, - 0.2025] 1
       = multiplyScalar (vertex mesh2 1)
           ((noise4D stub_noise (0.5 * NOISE_SCALE) (0 * NOISE_SCALE) (- 1 * NOISE_SCALE)
               (1000 * 0.000625) + 1) * NOISE_SCALE * NOISE_AMPLITUDE * 0.5)"
    by (simp only: og timeFactor.simps)
  with h1 h3 updateHeartGeometry_mesh2 show ?thesis by blast
qed

text \<open>
  C5. \<^verbatim>\<open>updateHeartGeometry\<close> is idempotent: running it again on the buffer it produced,
  with the same rest mesh, time and beat, gives the same buffer; its result does not
  depend on the previous contents of the live buffer, only on its length; and on a
  buffer of whole vertices with a rest copy of the same length it does produce a result.
\<close>

theorem C5_update_idempotent:
  "(\<forall>vs'. updateHeartGeometry v sx beat time rest vs = Some vs'
        \<longrightarrow> updateHeartGeometry v sx beat time rest vs' = Some vs')
   \<and> (\<forall>ws. length ws = length vs
        \<longrightarrow> updateHeartGeometry v sx beat time rest ws
            = updateHeartGeometry v sx beat time rest vs)
   \<and> (3 dvd length vs \<and> length rest = length vs
        \<longrightarrow> (\<exists>vs'. updateHeartGeometry v sx beat time rest vs = Some vs'))"
proof -
  have a: "\<forall>vs'. updateHeartGeometry v sx beat time rest vs = Some vs'
        \<longrightarrow> updateHeartGeometry v sx beat time rest vs' = Some vs'"
    unfolding updateHeartGeometry_def by (blast intro: displace_loop_idem)
  have b: "\<forall>ws. length ws = length vs
        \<longrightarrow> updateHeartGeometry v sx beat time rest ws
            = updateHeartGeometry v sx beat time rest vs"
    unfolding updateHeartGeometry_def by (blast intro: displace_loop_reads_only_origin)
  have c: "3 dvd length vs \<and> length rest = length vs
        \<longrightarrow> (\<exists>vs'. updateHeartGeometry v sx beat time rest vs = Some vs')"
  proof
    assume h: "3 dvd length vs \<and> length rest = length vs"
    then have "length vs \<le> length rest" by simp
    with h displace_loop_vertices [of vs rest "heart_scale sx (timeFactor v time) beat"]
    show "\<exists>vs'. updateHeartGeometry v sx beat time rest vs = Some vs'"
      unfolding updateHeartGeometry_def by blast
  qed
  from a b c show ?thesis by blast
qed

text \<open>The two-vertex mesh, updated once and then again.\<close>

theorem C5_witness:
  "3 dvd length mesh2 \<and> length mesh2 = length mesh2
   \<and> length [0.2025, 0.405, 0.405, 0.10125, 0, - 0.2025 :: real] = length mesh2
   \<and> updateHeartGeometry V0 stub_noise 0.5 1000 mesh2 mesh2
       = Some [0.2025, 0.405, 0.405, 0.10125, 0, - 0.2025]
   \<and> updateHeartGeometry V0 stub_noise 0.5 1000 mesh2 [0.2025, 0.405, 0.405, 0.10125, 0, - 0.2025]
       = Some [0.2025, 0.405, 0.405, 0.10125, 0, - 0.2025]"
proof -
  have h: "3 dvd length mesh2" "length mesh2 = length mesh2"
    "length [0.2025, 0.405, 0.405, 0.10125, 0, - 0.2025 :: real] = length mesh2"
    by (simp_all add: length_mesh2)
  from C5_update_idempotent [of V0 stub_noise "0.5" 1000 mesh2 mesh2]
  have "\<forall>vs'. updateHeartGeometry V0 stub_noise 0.5 1000 mesh2 mesh2 = Some vs'
        \<longrightarrow> updateHeartGeometry V0 stub_noise 0.5 1000 mesh2 vs' = Some vs'"
    by (rule conjunct1)
  with updateHeartGeometry_mesh2
  have "updateHeartGeometry V0 stub_noise 0.5 1000 mesh2 [0.2025, 0.405, 0.405, 0.10125, 0, - 0.2025]
       = Some [0.2025, 0.405, 0.405, 0.10125, 0, - 0.2025]"
    by blast
  with h updateHeartGeometry_mesh2 show ?thesis by blast
qed

text \<open>
  C6. For a position buffer of whole vertices and a rest copy of the same length, the
  update (\<^verbatim>\<open>updateHeartGeometry\<close> of v0 and v1, and the loop of the rebuilt \<^verbatim>\<open>animate\<close>)
  leaves a live buffer of the same length as the rest mesh, and every live vertex is the
  rest vertex with all three components multiplied by one scalar.
\<close>

theorem C6_length_and_collinear:
  assumes "3 dvd length vs" and "length rest = length vs"
  shows "(\<exists>vs'. updateHeartGeometry v sx beat time rest vs = Some vs'
            \<and> length vs' = length rest
            \<and> (\<forall>k. 3 * k + 2 < length rest \<longrightarrow>
                  (\<exists>c. vertex vs' k = multiplyScalar (vertex rest k) c)))
       \<and> (\<exists>vs'. animate_heart_rebuilt sx beat now rest vs = Some vs'
            \<and> length vs' = length rest
            \<and> (\<forall>k. 3 * k + 2 < length rest \<longrightarrow>
                  (\<exists>c. vertex vs' k = multiplyScalar (vertex rest k) c)))"
proof -
  from assms have le: "length vs \<le> length rest" by simp
  have g: "\<exists>vs'. displace_loop sc rest 0 (length vs) vs = Some vs'
            \<and> length vs' = length rest
            \<and> (\<forall>k. 3 * k + 2 < length rest \<longrightarrow>
                  (\<exists>c. vertex vs' k = multiplyScalar (vertex rest k) c))" for sc
    using displace_loop_vertices [OF assms(1) le, of sc] assms(2) by auto
  from g [of "heart_scale sx (timeFactor v time) beat"]
       g [of "heart_scale_rebuilt sx (now * 0.000625) beat"]
  show ?thesis
    unfolding updateHeartGeometry_def animate_heart_rebuilt_def by blast
qed

text \<open>The second vertex of the two-vertex mesh is a multiple of its rest vertex.\<close>

theorem C6_witness:
  "3 dvd length mesh2 \<and> 3 * 1 + 2 < length mesh2
   \<and> updateHeartGeometry V0 stub_noise 0.5 1000 mesh2 mesh2
       = Some [0.2025, 0.405, 0.405, 0.10125, 0, - 0.2025]
   \<and> length [0.2025, 0.405, 0.405, 0.10125, 0, - 0.2025 :: real] = length mesh2
   \<and> (\<exists>c. vertex [0.2025, 0.405, 0.405, 0.10125, 0, - 0.2025] 1
             = multiplyScalar (vertex mesh2 1) c)"
proof -
  have h1: "3 dvd length mesh2" by (simp add: length_mesh2)
  have h2: "length mesh2 = length mesh2" by simp
  have h3: "3 * 1 + 2 < length mesh2" by (simp add: length_mesh2)
  from C6_length_and_collinear [OF h1 h2, of V0 stub_noise "0.5" 1000 0]
  obtain vs' where r: "updateHeartGeometry V0 stub_noise 0.5 1000 mesh2 mesh2 = Some vs'"
    and l: "length vs' = length mesh2"
    and f: "\<forall>k. 3 * k + 2 < length mesh2 \<longrightarrow>
                  (\<exists>c. vertex vs' k = multiplyScalar (vertex mesh2 k) c)"
    by blast
  from r updateHeartGeometry_mesh2
  have e: "vs' = [0.2025, 0.405, 0.405, 0.10125, 0, - 0.2025]" by simp
  from f h3 have "\<exists>c. vertex vs' 1 = multiplyScalar (vertex mesh2 1) c" by blast
  with l have "length [0.2025, 0.405, 0.405, 0.10125, 0, - 0.2025 :: real] = length mesh2
      \<and> (\<exists>c. vertex [0.2025, 0.405, 0.405, 0.10125, 0, - 0.2025] 1
             = multiplyScalar (vertex mesh2 1) c)"
    by (simp only: e)
  with h1 h3 updateHeartGeometry_mesh2 show ?thesis by blast
qed

section \<open>Properties of the animation loop\<close>

lemma render_keeps:
  "render v fr t s = Inr s' \<Longrightarrow>
     beat_a s' = beat_a s \<and> timeline s' = timeline s \<and> lastRenderTime s' = lastRenderTime s
     \<and> isAnimating s' = isAnimating s"
  "render v fr t s = Inl (e, s') \<Longrightarrow>
     beat_a s' = beat_a s \<and> timeline s' = timeline s \<and> lastRenderTime s' = lastRenderTime s
     \<and> isAnimating s' = isAnimating s"
  by (cases v; auto simp: render_def Let_def updateSmallHeart_def
        split: if_splits option.splits sum.splits)+

lemma updateParticles_returns: "\<exists>out. updateParticles v b sparks pbuf cbuf = Inr out"
proof -
  obtain ss' k' where "pack_loop v b sparks \<lparr>positions = pbuf, colors = cbuf, posIdx = 0, colorIdx = 0\<rparr>
                        = Inr (ss', k')"
    using pack_loop_inv [of v b sparks "\<lparr>positions = pbuf, colors = cbuf, posIdx = 0, colorIdx = 0\<rparr>"]
    by blast
  then show ?thesis by (simp add: updateParticles_def)
qed

lemma render_returns:
  assumes "\<not> draw_throws fr"
  shows "\<exists>s'. render v fr t s = Inr s'"
proof -
  obtain out where "updateParticles v (beat_a s) (spikes s) (this_positions s) (this_colors s) = Inr out"
    using updateParticles_returns by blast
  with assms show ?thesis
    by (simp add: render_def Let_def split: option.splits)
qed

lemma animate_keeps:
  assumes "\<not> timeline s" and "animate v fr (gsap_tick osc t s) = (s', again)"
  shows "beat_a s' = beat_a s \<and> \<not> timeline s' \<and> (again \<longrightarrow> isAnimating s')"
proof -
  from assms(1) have g: "gsap_tick osc t s = s" by (simp add: gsap_tick_def)
  show ?thesis
  proof (cases "render v fr (currentTime fr) s")
    case (Inr s1)
    with render_keeps(1) [OF Inr] assms g show ?thesis
      by (auto simp: animate_def Let_def split: if_splits)
  next
    case (Inl p)
    obtain e s1 where p: "p = (e, s1)" by (cases p)
    with Inl have r: "render v fr (currentTime fr) s = Inl (e, s1)" by simp
    with render_keeps(2) [OF r] assms g show ?thesis
      by (auto simp: animate_def Let_def split: if_splits)
  qed
qed

lemma run_keeps:
  assumes "\<not> timeline s" and "s' \<in> set (run v osc frs s)"
  shows "beat_a s' = beat_a s \<and> \<not> timeline s'"
  using assms
proof (induction frs arbitrary: s)
  case Nil
  then show ?case by simp
next
  case (Cons fr frs)
  obtain s1 again where a: "animate v fr (gsap_tick osc (currentTime fr) s) = (s1, again)"
    by (cases "animate v fr (gsap_tick osc (currentTime fr) s)")
  from animate_keeps [OF Cons.prems(1) a]
  have k: "beat_a s1 = beat_a s" "\<not> timeline s1" by simp_all
  from Cons.prems(2) a have "s' = s1 \<or> s' \<in> set (run v osc frs s1)"
    by (auto split: if_splits)
  then show ?case
  proof
    assume "s' = s1"
    with k show ?thesis by simp
  next
    assume "s' \<in> set (run v osc frs s1)"
    from Cons.IH [OF k(2) this] k show ?thesis by simp
  qed
qed

lemma run_length:
  assumes "isAnimating s" and "\<not> timeline s" and "\<forall>fr\<in>set frs. \<not> draw_throws fr"
  shows "length (run v osc frs s) = length frs"
  using assms
proof (induction frs arbitrary: s)
  case Nil
  then show ?case by simp
next
  case (Cons fr frs)
  from Cons.prems(2) have g: "gsap_tick osc (currentTime fr) s = s" by (simp add: gsap_tick_def)
  from Cons.prems(3) have nd: "\<not> draw_throws fr" by simp
  obtain s1 where r: "render v fr (currentTime fr) s = Inr s1"
    using render_returns [OF nd] by blast
  have "\<exists>s2. animate v fr s = (s2, True)"
    using r Cons.prems(1) by (simp add: animate_def Let_def)
  then obtain s2 where a: "animate v fr s = (s2, True)" by blast
  from animate_keeps [OF Cons.prems(2), of v fr osc "currentTime fr" s2 True] a g
  have k: "\<not> timeline s2" "isAnimating s2" by simp_all
  from Cons.prems(3) have "\<forall>fr\<in>set frs. \<not> draw_throws fr" by simp
  from Cons.IH [OF k(2) k(1) this] a g show ?case by simp
qed

text \<open>
  C7. With the reduced-motion preference active, \<^verbatim>\<open>setupAnimation\<close> sets \<^verbatim>\<open>beat.a\<close> to
  \<open>0.3 * BEAT_MAX_VALUE\<close> and creates no timeline (there was none before); then, whatever
  the oscillator would compute and whatever callbacks arrive, \<^verbatim>\<open>beat.a\<close> is
  \<open>0.3 * BEAT_MAX_VALUE\<close> after every frame of the run, and no timeline ever exists.
\<close>

theorem C7_reduced_motion_beat_constant:
  assumes "\<not> timeline s"
  shows "beat_a (setupAnimation True s) = 0.3 * BEAT_MAX_VALUE
       \<and> \<not> timeline (setupAnimation True s)
       \<and> (\<forall>s' \<in> set (run v osc frs (startAnimation now (setupAnimation True s))).
             beat_a s' = 0.3 * BEAT_MAX_VALUE \<and> \<not> timeline s')"
proof -
  let ?s1 = "startAnimation now (setupAnimation True s)"
  have b: "beat_a (setupAnimation True s) = 0.3 * BEAT_MAX_VALUE"
    by (simp add: setupAnimation_def)
  have t: "\<not> timeline (setupAnimation True s)"
    using assms by (simp add: setupAnimation_def)
  have b1: "beat_a ?s1 = 0.3 * BEAT_MAX_VALUE" and t1: "\<not> timeline ?s1"
    using b t by (simp_all add: startAnimation_def)
  have "beat_a s' = 0.3 * BEAT_MAX_VALUE \<and> \<not> timeline s'"
    if "s' \<in> set (run v osc frs ?s1)" for s'
    using run_keeps [OF t1 that] b1 by simp
  with b t show ?thesis by blast
qed

text \<open>Three callbacks on the loaded state \<open>app0\<close>: the beat is \<open>0.15\<close> after each.\<close>

theorem C7_witness:
  "\<not> timeline app0
   \<and> map beat_a (run V0 ramp frames3 (startAnimation 0 (setupAnimation True app0)))
       = [0.3 * BEAT_MAX_VALUE, 0.3 * BEAT_MAX_VALUE, 0.3 * BEAT_MAX_VALUE]
   \<and> 0.3 * BEAT_MAX_VALUE = 0.15"
proof -
  let ?s1 = "startAnimation 0 (setupAnimation True app0)"
  have h: "\<not> timeline app0" by (simp add: app0_def)
  have s1: "isAnimating ?s1" "\<not> timeline ?s1"
    using h by (simp_all add: startAnimation_def setupAnimation_def)
  have nd: "\<forall>fr\<in>set frames3. \<not> draw_throws fr" by (simp add: frames3_def)
  have "length (run V0 ramp frames3 ?s1) = length frames3"
    by (rule run_length [OF s1 nd])
  then have len: "length (run V0 ramp frames3 ?s1) = 3" by (simp add: frames3_def)
  from C7_reduced_motion_beat_constant [OF h, of V0 ramp frames3 0]
  have all: "\<forall>s' \<in> set (run V0 ramp frames3 ?s1). beat_a s' = 0.3 * BEAT_MAX_VALUE" by blast
  then have "map beat_a (run V0 ramp frames3 ?s1)
             = replicate (length (run V0 ramp frames3 ?s1)) (0.3 * BEAT_MAX_VALUE)"
    by (simp add: map_replicate_const [symmetric])
  with len have "map beat_a (run V0 ramp frames3 ?s1)
       = [0.3 * BEAT_MAX_VALUE, 0.3 * BEAT_MAX_VALUE, 0.3 * BEAT_MAX_VALUE]"
    by (simp add: numeral_3_eq_3)
  moreover have "0.3 * BEAT_MAX_VALUE = 0.15" by (simp add: BEAT_MAX_VALUE_def)
  ultimately show ?thesis using h by blast
qed






end
